theory Spec2Isabelle
  imports Complex_Main "HOL-Library.List_Lexorder" "HOL-Library.Char_ord" "HOL-Library.Log_Nat"
begin

section \<open>Values, errors and Python helpers\<close>

text \<open>
  The survey pipeline of \<^verbatim>\<open>socios.py\<close> and \<^verbatim>\<open>bn_evidence.py\<close> works on pandas
  tables. A table cell is dynamically typed: a number, a string, or the not-a-number
  marker that pandas uses for a missing value. A number is a double; it is modelled by
  the rational it denotes. Comparison against the integer bin edges and the zero-decimal
  formatting are exact on doubles, and the result of an arithmetic operation is rounded
  to the nearest double (\<open>round_double\<close> below). Infinities and negative zero are not
  modelled.
\<close>

datatype cell = NaN | Num rat | Str string

text \<open>
  Exceptions of the Python run are values. \<open>Unmodelled\<close> marks an input on which the
  pandas behaviour is outside this model (it is never the result of a modelled run).
\<close>

datatype py_error =
  AttributeError | KeyError | TypeError | ValueError | IndexError | UnboundLocalError |
  OverflowError | ImportError | Unmodelled

text \<open>\<^verbatim>\<open>str(n)\<close> of a Python integer.\<close>

definition digit_chars :: string where
  "digit_chars = ''0123456789''"

fun str_nat :: "nat \<Rightarrow> string" where
  "str_nat n = (if n < 10 then [digit_chars ! n]
                else str_nat (n div 10) @ [digit_chars ! (n mod 10)])"

definition str_int :: "int \<Rightarrow> string" where
  "str_int i = (if i < 0 then CHR ''-'' # str_nat (nat (- i)) else str_nat (nat i))"

text \<open>The year argument is a number or a string (\<^verbatim>\<open>isinstance(year, str)\<close>).\<close>

datatype year_arg = YInt int | YStr string

fun str_year :: "year_arg \<Rightarrow> string" where
  "str_year (YStr s) = s"
| "str_year (YInt i) = str_int i"

text \<open>\<^verbatim>\<open>Series.unique()\<close>: the distinct values in order of first appearance.\<close>

fun unique :: "'a list \<Rightarrow> 'a list" where
  "unique [] = []"
| "unique (x # xs) = x # unique (filter (\<lambda>y. y \<noteq> x) xs)"

section \<open>The table store\<close>

text \<open>
  \<^verbatim>\<open>loadTables()\<close> reads every feather file of the data directory into a dictionary;
  \<^verbatim>\<open>.get(name)\<close> is \<^verbatim>\<open>None\<close> for a table that is absent. The store is a parameter of
  every function below: a record of optional tables.
\<close>

record group_row =
  group_GroupID :: int
  group_Year :: string
  group_Location :: string

record link_row =
  link_GroupID :: int
  link_AnswerID :: int
  link_ProfileID :: int

text \<open>
  The questions table after \<^verbatim>\<open>drop(labels='lock', axis=1)\<close>, and the constraints table
  after the same drop. \<open>qu_Datatype\<close> is the raw value stored in the table.
\<close>

record question_row =
  qu_QuestionID :: int
  qu_Question :: string
  qu_Datatype :: string
  qu_QuestionaireID :: int
  qu_ColumnNo :: int

record qconstraint_row =
  con_Lower :: cell
  con_Upper :: cell

text \<open>
  An answer table: the first column is \<^verbatim>\<open>AnswerID\<close>, the other columns are named by
  \<open>cols\<close>; a row is the respondent identifier and one cell for each of \<open>cols\<close>.
\<close>

record frame =
  cols :: "string list"
  rows :: "(int \<times> cell list) list"

record tables =
  groups :: "group_row list option"
  links :: "link_row list option"
  questions :: "question_row list option"
  qconstraints :: "qconstraint_row list option"
  questionaires :: "int list option"
  answers :: "frame option"
  answers_blob_anon :: "frame option"
  answers_char_anon :: "frame option"
  answers_num :: "frame option"

section \<open>Identity Resolver: \<^verbatim>\<open>loadID\<close>\<close>

text \<open>\<^verbatim>\<open>links[id_name]\<close>: the identifier column of the links table with that name.\<close>

definition link_col :: "string \<Rightarrow> (link_row \<Rightarrow> int) option" where
  "link_col id_name =
     (if id_name = ''AnswerID'' then Some link_AnswerID
      else if id_name = ''ProfileID'' then Some link_ProfileID
      else if id_name = ''GroupID'' then Some link_GroupID
      else None)"

definition loadID :: "tables \<Rightarrow> year_arg option \<Rightarrow> string \<Rightarrow> py_error + int list" where
  "loadID T year id_name =
     (case links T of
        None \<Rightarrow> Inl AttributeError
      | Some ls \<Rightarrow>
          (case link_col id_name of
             None \<Rightarrow> Inl KeyError
           | Some col \<Rightarrow>
               (let all_ids = filter (\<lambda>l. link_GroupID l \<noteq> 0 \<and> col l \<noteq> 0) ls in
                case year of
                  None \<Rightarrow> Inr (unique (map col all_ids))
                | Some y \<Rightarrow>
                    (case groups T of
                       None \<Rightarrow> Inl AttributeError
                     | Some gs \<Rightarrow>
                         (let id_select = map group_GroupID
                                (filter (\<lambda>g. group_Year g = str_year y) gs)
                          in Inr (unique (map col
                                (filter (\<lambda>l. link_GroupID l \<in> set id_select) all_ids))))))))"

section \<open>Question Resolver: \<^verbatim>\<open>loadQuestions\<close> and \<^verbatim>\<open>searchQuestions\<close>\<close>

text \<open>
  \<^verbatim>\<open>loadQuestions\<close> turns the raw data type column into a categorical one and renames its
  categories, in their sorted order, to \<^verbatim>\<open>['blob','char','num']\<close>; pandas raises
  a ValueError unless the column has exactly three distinct raw values.
\<close>

definition rename_categories :: "string list \<Rightarrow> string list \<Rightarrow> string \<Rightarrow> string" where
  "rename_categories old new v = (case map_of (zip old new) v of Some n \<Rightarrow> n | None \<Rightarrow> v)"

definition loadQuestions :: "tables \<Rightarrow> string option \<Rightarrow> py_error + question_row list" where
  "loadQuestions T dtype =
     (case questions T of
        None \<Rightarrow> Inl AttributeError
      | Some qu \<Rightarrow>
          (let categories = sort (remdups (map qu_Datatype qu)) in
           if length categories \<noteq> 3 then Inl ValueError
           else
             (let qu' = map (\<lambda>q. q\<lparr>qu_Datatype :=
                          rename_categories categories [''blob'', ''char'', ''num''] (qu_Datatype q)\<rparr>) qu
              in case dtype of
                   None \<Rightarrow> Inr qu'
                 | Some d \<Rightarrow> Inr (filter (\<lambda>q. qu_Datatype q = d) qu'))))"

text \<open>
  \<^verbatim>\<open>str.lower()\<close>, on ASCII letters; every other character is left as it is (question
  texts and search terms are taken to be ASCII).
\<close>

definition lower_char :: "char \<Rightarrow> char" where
  "lower_char c =
     (case map_of (zip ''ABCDEFGHIJKLMNOPQRSTUVWXYZ'' ''abcdefghijklmnopqrstuvwxyz'') c of
        Some l \<Rightarrow> l | None \<Rightarrow> c)"

definition lower :: "string \<Rightarrow> string" where
  "lower s = map lower_char s"

text \<open>\<^verbatim>\<open>'|'.join(searchterm)\<close>.\<close>

fun bar_join :: "string list \<Rightarrow> string" where
  "bar_join [] = []"
| "bar_join [t] = t"
| "bar_join (t # ts) = t @ CHR ''|'' # bar_join ts"

text \<open>
  \<^verbatim>\<open>Series.str.contains(pat)\<close> searches each text for the regular expression \<open>pat\<close>
  (\<^verbatim>\<open>regex=True\<close> is the default). The model covers the patterns built from literal
  characters and the alternation bar: such a pattern is found in a text when one of its
  alternatives is a substring of the text. A pattern with any other regular-expression
  metacharacter is \<open>Unmodelled\<close>.
\<close>

fun starts_with :: "string \<Rightarrow> string \<Rightarrow> bool" where
  "starts_with [] s = True"
| "starts_with (p # ps) [] = False"
| "starts_with (p # ps) (c # cs) = (p = c \<and> starts_with ps cs)"

fun is_substring :: "string \<Rightarrow> string \<Rightarrow> bool" where
  "is_substring p [] = (p = [])"
| "is_substring p (c # cs) = (starts_with p (c # cs) \<or> is_substring p cs)"

fun split_bar :: "string \<Rightarrow> string list" where
  "split_bar [] = [[]]"
| "split_bar (c # cs) =
     (if c = CHR ''|'' then [] # split_bar cs
      else (case split_bar cs of [] \<Rightarrow> [[c]] | a # as \<Rightarrow> (c # a) # as))"

definition regex_other_special :: string where
  "regex_other_special = ''.^$*+?{}[]()'' @ [CHR 0x5C]"

definition str_contains :: "string \<Rightarrow> string \<Rightarrow> bool" where
  "str_contains pat s = (\<exists>alt \<in> set (split_bar pat). is_substring alt s)"

text \<open>
  The characters that mean something other than themselves in a regular expression.
\<close>

definition regex_special :: string where
  "regex_special = CHR ''|'' # regex_other_special"

text \<open>
  A text contains a term as a case-insensitive substring: the lower-cased term occurs in
  the lower-cased text.
\<close>

definition ci_substring :: "string \<Rightarrow> string \<Rightarrow> bool" where
  "ci_substring t text = is_substring (lower t) (lower text)"

text \<open>A row of the table that \<^verbatim>\<open>searchQuestions\<close> returns (its six columns).\<close>

record result_row =
  Question :: string
  Datatype :: string
  QuestionaireID :: int
  ColumnNo :: int
  Lower :: cell
  Upper :: cell

text \<open>
  \<^verbatim>\<open>qu.join(qcons, 'QuestionID', rsuffix='_c')\<close> is a left join of the questions on the
  row index of the constraints table: every question is kept once, and a question whose
  \<^verbatim>\<open>QuestionID\<close> is no row index of the constraints gets missing bounds.
\<close>

definition join_qcons :: "qconstraint_row list \<Rightarrow> question_row \<Rightarrow> result_row" where
  "join_qcons qcons q =
     (let i = qu_QuestionID q;
          found = (0 \<le> i \<and> nat i < length qcons) in
      \<lparr>Question = qu_Question q, Datatype = qu_Datatype q,
       QuestionaireID = qu_QuestionaireID q, ColumnNo = qu_ColumnNo q,
       Lower = (if found then con_Lower (qcons ! nat i) else NaN),
       Upper = (if found then con_Upper (qcons ! nat i) else NaN)\<rparr>)"

text \<open>\<^verbatim>\<open>print\<close> of a list of integers, as in \<^verbatim>\<open>[1, 2, 3]\<close>.\<close>

fun comma_join :: "string list \<Rightarrow> string" where
  "comma_join [] = []"
| "comma_join [t] = t"
| "comma_join (t # ts) = t @ '', '' @ comma_join ts"

definition repr_int_list :: "int list \<Rightarrow> string" where
  "repr_int_list xs = ''['' @ comma_join (map str_int xs) @ '']''"

text \<open>The search term argument: one string, or a list of strings.\<close>

datatype search_arg = Term string | Terms "string list"

fun as_list :: "search_arg \<Rightarrow> string list" where
  "as_list (Term s) = [s]"
| "as_list (Terms ss) = ss"

text \<open>
  What a call leaves behind when no exception is raised: the lines it printed and the
  value it returned (\<open>None\<close> is Python's \<^verbatim>\<open>None\<close>).
\<close>

record 'a outcome =
  printed :: "string list"
  returned :: "'a option"

text \<open>
  The last statement of \<^verbatim>\<open>searchQuestions\<close>: the rows of \<open>qdf\<close> whose lower-cased
  question text contains the joined pattern.
\<close>

definition select_matching ::
  "string list \<Rightarrow> result_row list \<Rightarrow> py_error + result_row list outcome" where
  "select_matching searchterm qdf =
     (let pat = bar_join searchterm in
      if \<exists>c \<in> set pat. c \<in> set regex_other_special then Inl Unmodelled
      else Inr \<lparr>printed = [],
                returned = Some (filter (\<lambda>r. str_contains pat (lower (Question r))) qdf)\<rparr>)"

definition searchQuestions ::
  "tables \<Rightarrow> search_arg \<Rightarrow> int option \<Rightarrow> string option \<Rightarrow> py_error + result_row list outcome" where
  "searchQuestions T searchterm qnairid dtype =
     (let searchterm = map lower (as_list searchterm) in
      case qconstraints T of
        None \<Rightarrow> Inl AttributeError
      | Some qcons \<Rightarrow>
          (case loadQuestions T dtype of
             Inl e \<Rightarrow> Inl e
           | Inr qu \<Rightarrow>
               (let qdf = map (join_qcons qcons) qu in
                case questionaires T of
                  None \<Rightarrow> Inl TypeError
                | Some qnairids \<Rightarrow>
                    (case qnairid of
                       None \<Rightarrow> select_matching searchterm qdf
                     | Some i \<Rightarrow>
                         if i \<in> set qnairids
                         then select_matching searchterm (filter (\<lambda>r. QuestionaireID r = i) qdf)
                         else Inr \<lparr>printed = [''Please select a valid QuestionaireID '' @
                                                 repr_int_list qnairids],
                                   returned = None\<rparr>))))"

section \<open>Answer Extractor: \<^verbatim>\<open>loadAnswers\<close> and \<^verbatim>\<open>searchAnswers\<close>\<close>

text \<open>The first error of a list of results, or all the values.\<close>

fun collect :: "('e + 'a) list \<Rightarrow> 'e + 'a list" where
  "collect [] = Inr []"
| "collect (r # rs) =
     (case r of
        Inl e \<Rightarrow> Inl e
      | Inr v \<Rightarrow> (case collect rs of Inl e \<Rightarrow> Inl e | Inr vs \<Rightarrow> Inr (v # vs)))"

text \<open>The cell of a row at a position; a row shorter than its table has no such cell.\<close>

definition cell_at :: "cell list \<Rightarrow> nat \<Rightarrow> cell" where
  "cell_at cs i = (if i < length cs then cs ! i else NaN)"

text \<open>
  \<^verbatim>\<open>frame.drop(labels, axis=1)\<close>: a label that is no column raises a KeyError; every
  column with one of the labels goes. Dropping the identifier column is not modelled.
\<close>

definition drop_labels :: "string list \<Rightarrow> frame \<Rightarrow> py_error + frame" where
  "drop_labels labels f =
     (if ''AnswerID'' \<in> set labels then Inl Unmodelled
      else if \<not> set labels \<subseteq> set (cols f) then Inl KeyError
      else Inr \<lparr>cols = filter (\<lambda>c. c \<notin> set labels) (cols f),
                rows = map (\<lambda>(k, cs). (k, map snd (filter (\<lambda>(c, v). c \<notin> set labels)
                                                   (zip (cols f) cs)))) (rows f)\<rparr>)"

definition loadAnswers :: "tables \<Rightarrow> string option \<Rightarrow> py_error + frame" where
  "loadAnswers T dtype =
     (case dtype of
        None \<Rightarrow> (case answers T of None \<Rightarrow> Inl AttributeError
                  | Some a \<Rightarrow> drop_labels [''lock''] a)
      | Some d \<Rightarrow>
          if d = ''blob'' then
            (case answers_blob_anon T of None \<Rightarrow> Inl AttributeError | Some a \<Rightarrow> Inr a)
          else if d = ''char'' then
            (case answers_char_anon T of None \<Rightarrow> Inl AttributeError
             | Some a \<Rightarrow> drop_labels [''lock''] a)
          else if d = ''num'' then
            (case answers_num T of None \<Rightarrow> Inl AttributeError
             | Some a \<Rightarrow> drop_labels [''lock''] a)
          else Inl UnboundLocalError)"

text \<open>
  The positions of a label among the columns. A label that names two columns selects a
  table, not a column; what pandas does with it further on is not modelled.
\<close>

definition positions :: "string list \<Rightarrow> string \<Rightarrow> nat list" where
  "positions cs name = filter (\<lambda>i. cs ! i = name) [0 ..< length cs]"

definition get_column :: "py_error \<Rightarrow> frame \<Rightarrow> string \<Rightarrow> py_error + cell list" where
  "get_column missing f name =
     (case positions (cols f) name of
        [] \<Rightarrow> Inl missing
      | [i] \<Rightarrow> Inr (map (\<lambda>(k, cs). cell_at cs i) (rows f))
      | _ \<Rightarrow> Inl Unmodelled)"

text \<open>
  \<^verbatim>\<open>iloc[:, ps]\<close>: a position counts from the end when negative and raises an IndexError
  outside the table; position 0 is the identifier column, position \<open>p > 0\<close> is
  \<open>cols ! (p - 1)\<close>.
\<close>

definition iloc_position :: "nat \<Rightarrow> int \<Rightarrow> py_error + nat" where
  "iloc_position n p =
     (if p < - int n \<or> int n \<le> p then Inl IndexError
      else Inr (nat (if p < 0 then p + int n else p)))"

definition searchAnswers ::
  "tables \<Rightarrow> search_arg \<Rightarrow> int \<Rightarrow> string \<Rightarrow> py_error + (frame \<times> (int \<times> string) list)" where
  "searchAnswers T searchterm qnairid dtype =
     (case loadAnswers T None of
        Inl e \<Rightarrow> Inl e
      | Inr allans \<Rightarrow>
     (case loadAnswers T (Some dtype) of
        Inl e \<Rightarrow> Inl e
      | Inr ans \<Rightarrow>
     (case searchQuestions T searchterm (Some qnairid) (Some dtype) of
        Inl e \<Rightarrow> Inl e
      | Inr found \<Rightarrow>
     (case get_column AttributeError allans ''QuestionaireID'' of
        Inl e \<Rightarrow> Inl e
      | Inr qn \<Rightarrow>
     (let ids = map (\<lambda>(row, c). fst row)
                    (filter (\<lambda>(row, c). c = Num (of_int qnairid)) (zip (rows allans) qn));
          result = filter (\<lambda>row. fst row \<in> set ids) (rows ans)
      in case returned found of
           None \<Rightarrow> Inl TypeError
         | Some qs \<Rightarrow>
             (case collect (map (iloc_position (Suc (length (cols ans))))
                               (map ColumnNo qs)) of
                Inl e \<Rightarrow> Inl e
              | Inr ps \<Rightarrow>
                  if 0 \<in> set ps then Inl Unmodelled
                  else Inr (\<lparr>cols = map (\<lambda>p. cols ans ! (p - 1)) ps,
                             rows = map (\<lambda>(k, cs). (k, map (\<lambda>p. cell_at cs (p - 1)) ps)) result\<rparr>,
                            map (\<lambda>q. (ColumnNo q, Question q)) qs)))))))"

section \<open>Feature Assembler: \<^verbatim>\<open>featureFrame\<close>\<close>

text \<open>
  \<^verbatim>\<open>pd.merge(data, newdata, how='outer', on='AnswerID')\<close>: the keys of both tables in
  the order of their first appearance, left table first; for a key on both sides every
  pairing of its left rows with its right rows, for a key on one side only its rows with
  missing cells for the other side's columns. A column name of both tables gets the
  suffix \<^verbatim>\<open>_x\<close> on the left and \<^verbatim>\<open>_y\<close> on the right.
\<close>

definition join_key ::
  "nat \<Rightarrow> nat \<Rightarrow> (int \<times> cell list) list \<Rightarrow> (int \<times> cell list) list \<Rightarrow> int \<Rightarrow> (int \<times> cell list) list" where
  "join_key nl nr ls rs k =
     (let lk = map snd (filter (\<lambda>row. fst row = k) ls);
          rk = map snd (filter (\<lambda>row. fst row = k) rs)
      in if rk = [] then map (\<lambda>a. (k, a @ replicate nr NaN)) lk
         else if lk = [] then map (\<lambda>b. (k, replicate nl NaN @ b)) rk
         else concat (map (\<lambda>a. map (\<lambda>b. (k, a @ b)) rk) lk))"

definition merge_outer :: "frame \<Rightarrow> frame \<Rightarrow> frame" where
  "merge_outer l r =
     (let keys = unique (map fst (rows l) @ map fst (rows r))
      in \<lparr>cols = map (\<lambda>c. if c \<in> set (cols r) then c @ ''_x'' else c) (cols l) @
                 map (\<lambda>c. if c \<in> set (cols l) then c @ ''_y'' else c) (cols r),
          rows = concat (map (join_key (length (cols l)) (length (cols r)) (rows l) (rows r))
                             keys)\<rparr>)"

text \<open>A row of the feature questions table: column offset, question text, feature.\<close>

type_synonym featureqs = "(int \<times> string \<times> string) list"

text \<open>
  The loop over the features, with the working table and the collected questions as
  its state. \<^verbatim>\<open>year <= 1999\<close> on a string year raises a TypeError.
\<close>

fun featureFrame_loop ::
  "tables \<Rightarrow> year_arg \<Rightarrow> string list \<Rightarrow> frame \<Rightarrow> featureqs \<Rightarrow> py_error + (frame \<times> featureqs)" where
  "featureFrame_loop T year [] data fqs = Inr (data, fqs)"
| "featureFrame_loop T year (f # features) data fqs =
     (case year of
        YStr s \<Rightarrow> Inl TypeError
      | YInt y \<Rightarrow>
          (case searchAnswers T (Term f) (if y \<le> 1999 then 6 else 3) ''num'' of
             Inl e \<Rightarrow> Inl e
           | Inr (d, q) \<Rightarrow>
               (let q' = map (\<lambda>(c, t). (c, t, f)) q;
                    newdata = d\<lparr>rows := filter (\<lambda>row. fst row \<in> set (map fst (rows data)))
                                              (rows d)\<rparr>;
                    data' = merge_outer data newdata
                in featureFrame_loop T year features data' (fqs @ q'))))"

definition featureFrame ::
  "tables \<Rightarrow> string list \<Rightarrow> year_arg \<Rightarrow> py_error + (frame \<times> featureqs)" where
  "featureFrame T features year =
     (case loadID T (Some year) ''AnswerID'' of
        Inl e \<Rightarrow> Inl e
      | Inr ids \<Rightarrow> featureFrame_loop T year features \<lparr>cols = [], rows = map (\<lambda>i. (i, [])) ids\<rparr> [])"

section \<open>Evidence Encoder: binning and formatting\<close>

text \<open>
  \<^verbatim>\<open>pd.cut(x, bins, labels, right, include_lowest)\<close> on one value. \<open>cut_bins\<close> walks the
  consecutive edge pairs with their labels; with \<open>right = False\<close> a bin is
  \<open>[lo, hi)\<close>, with \<open>right = True\<close> it is \<open>(lo, hi]\<close>. \<open>include_lowest\<close> puts a value
  equal to the first edge into the first bin. A value in no bin, and a missing value,
  give \<open>NaN\<close>; a string cannot be compared with the edges.
\<close>

fun cut_bins :: "bool \<Rightarrow> rat list \<Rightarrow> string list \<Rightarrow> rat \<Rightarrow> cell" where
  "cut_bins right (lo # hi # bins) (l # labels) x =
     (if (if right then lo < x \<and> x \<le> hi else lo \<le> x \<and> x < hi) then Str l
      else cut_bins right (hi # bins) labels x)"
| "cut_bins right bins labels x = NaN"

definition cut :: "rat list \<Rightarrow> string list \<Rightarrow> bool \<Rightarrow> bool \<Rightarrow> cell \<Rightarrow> py_error + cell" where
  "cut bins labels right include_lowest c =
     (case c of
        NaN \<Rightarrow> Inr NaN
      | Str s \<Rightarrow> Inl TypeError
      | Num x \<Rightarrow>
          (if include_lowest \<and> bins \<noteq> [] \<and> labels \<noteq> [] \<and> x = hd bins then Inr (Str (hd labels))
           else Inr (cut_bins right bins labels x)))"

definition income_bins :: "rat list" where
  "income_bins = [0, 1800, 3200, 7800, 11600, 19116, 24500, 65600, 500000]"

definition income_labels :: "string list" where
  "income_labels = [''R0-R1799'', ''R1800-R3199'', ''R3200-R7799'', ''R7800-R11599'',
     ''R11600-R19115'', ''R19116-R24499'', ''R24500-R65499'', ''+R65500'']"

definition floorarea_bins :: "rat list" where
  "floorarea_bins = [0, 50, 80, 150, 250, 500]"

definition floorarea_labels :: "string list" where
  "floorarea_labels = [''0-50'', ''50-80'', ''80-150'', ''150-250'', ''250-500'']"

definition cut_income :: "cell \<Rightarrow> py_error + cell" where
  "cut_income = cut income_bins income_labels False True"

definition cut_floorarea :: "cell \<Rightarrow> py_error + cell" where
  "cut_floorarea = cut floorarea_bins floorarea_labels True False"

text \<open>
  \<^verbatim>\<open>'{:.0f}'.format(v)\<close>: a number is rounded to the nearest integer, a tie to the even
  one, and printed without decimals; the sign of a negative number stays when it rounds
  to zero. Not-a-number is printed as \<^verbatim>\<open>nan\<close>, and a string has no format code
  \<^verbatim>\<open>f\<close>. \<^verbatim>\<open>Series.map(func, na_action=None)\<close> passes every value to \<open>func\<close>, the
  missing ones too.
\<close>

definition round_half_even :: "rat \<Rightarrow> int" where
  "round_half_even q =
     (let f = \<lfloor>q\<rfloor>; r = q - of_int f
      in if r < 1 / 2 then f else if 1 / 2 < r then f + 1 else if even f then f else f + 1)"

definition format_0f_num :: "rat \<Rightarrow> string" where
  "format_0f_num q =
     (if q < 0 then CHR ''-'' # str_nat (nat (round_half_even (- q)))
      else str_nat (nat (round_half_even q)))"

fun format_0f :: "cell \<Rightarrow> py_error + cell" where
  "format_0f NaN = Inr (Str ''nan'')"
| "format_0f (Num q) = Inr (Str (format_0f_num q))"
| "format_0f (Str s) = Inl ValueError"

text \<open>
  Rounding to the nearest double, a tie to the even mantissa. \<open>exponent q\<close> is the
  \<open>e\<close> with \<open>2 ^ e \<le> \<bar>q\<bar> < 2 ^ (e + 1)\<close>; a double has 53 significant bits, and
  below \<open>2 ^ (- 1022)\<close> the spacing stays \<open>2 ^ (- 1074)\<close>. \<open>None\<close> is a result
  beyond the largest double.
\<close>

definition pow2 :: "int \<Rightarrow> rat" where
  "pow2 e = (if 0 \<le> e then 2 ^ nat e else 1 / 2 ^ nat (- e))"

definition exponent :: "rat \<Rightarrow> int" where
  "exponent q =
     (let (a, b) = quotient_of \<bar>q\<bar>;
          d = bitlen a - bitlen b
      in if pow2 d \<le> \<bar>q\<bar> then d else d - 1)"

definition round_double :: "rat \<Rightarrow> rat option" where
  "round_double q =
     (if q = 0 then Some 0
      else (let u = max (exponent q - 52) (- 1074);
                r = of_int (round_half_even (q / pow2 u)) * pow2 u
            in if r \<noteq> 0 \<and> 1024 \<le> exponent r then None else Some r))"

text \<open>
  \<^verbatim>\<open>'{:.0f}'.format(k)\<close> of an integer: the integer is converted to a double first,
  which raises an OverflowError when it is too large.
\<close>

definition format_0f_int :: "int \<Rightarrow> py_error + string" where
  "format_0f_int k =
     (case round_double (of_int k) of
        None \<Rightarrow> Inl OverflowError
      | Some r \<Rightarrow> Inr (format_0f_num r))"

text \<open>
  The difference of two cells, as in \<^verbatim>\<open>featureframe['115'] - featureframe['131']\<close>:
  the difference of two doubles is rounded to a double; a difference beyond the largest
  double is an infinity, which is not modelled.
\<close>

fun cell_sub :: "cell \<Rightarrow> cell \<Rightarrow> py_error + cell" where
  "cell_sub (Num a) (Num b) =
     (case round_double (a - b) of None \<Rightarrow> Inl Unmodelled | Some d \<Rightarrow> Inr (Num d))"
| "cell_sub (Str s) c = Inl TypeError"
| "cell_sub c (Str s) = Inl TypeError"
| "cell_sub c d = Inr NaN"

text \<open>
  \<^verbatim>\<open>frame[name] = values\<close>: a new column at the end, or new values in every column that
  has the name already.
\<close>

definition set_column :: "string \<Rightarrow> cell list \<Rightarrow> frame \<Rightarrow> frame" where
  "set_column name vals f =
     (if name \<in> set (cols f)
      then f\<lparr>rows := map (\<lambda>((k, cs), v). (k, map (\<lambda>(c, x). if c = name then v else x)
                                                  (zip (cols f) cs)))
                         (zip (rows f) vals)\<rparr>
      else \<lparr>cols = cols f @ [name],
            rows = map (\<lambda>((k, cs), v). (k, cs @ [v])) (zip (rows f) vals)\<rparr>)"

text \<open>\<^verbatim>\<open>frame.name = func(frame.name)\<close>, with \<open>func\<close> applied to each value.\<close>

definition apply_column :: "string \<Rightarrow> (cell \<Rightarrow> py_error + cell) \<Rightarrow> frame \<Rightarrow> py_error + frame" where
  "apply_column name func f =
     (case get_column AttributeError f name of
        Inl e \<Rightarrow> Inl e
      | Inr vals \<Rightarrow>
          (case collect (map func vals) of
             Inl e \<Rightarrow> Inl e
           | Inr vals' \<Rightarrow> Inr (set_column name vals' f)))"

text \<open>
  \<^verbatim>\<open>replace(np.nan, '', regex=True)\<close>: a missing cell becomes the empty string, except
  in a categorical column. The column that \<^verbatim>\<open>pd.cut\<close> returns is categorical, the empty
  string is none of its categories, and its missing cells stay missing. \<open>categorical\<close>
  names the categorical columns.
\<close>

definition replace_nan :: "string list \<Rightarrow> frame \<Rightarrow> frame" where
  "replace_nan categorical f =
     f\<lparr>rows := map (\<lambda>(k, cs). (k, map (\<lambda>(n, c). if c = NaN \<and> n \<notin> set categorical
                                                    then Str [] else c)
                                       (zip (cols f) cs)))
                     (rows f)\<rparr>"

text \<open>
  An evidence record maps variable names to values; the evidence maps the formatted
  respondent identifier to its record. Both are Python dictionaries, kept in insertion
  order.
\<close>

type_synonym evidence = "(string \<times> (string \<times> cell) list) list"

text \<open>
  \<^verbatim>\<open>set_index('AnswerID')\<close> and \<^verbatim>\<open>to_dict('index')\<close>, on the table whose identifier
  column has been formatted: pandas raises a ValueError when the index is not unique.
  A record lists the columns in their order.
\<close>

definition to_dict_index :: "string list \<Rightarrow> (string \<times> cell list) list \<Rightarrow> py_error + evidence" where
  "to_dict_index cs rs =
     (if \<not> distinct (map fst rs) then Inl ValueError
      else Inr (map (\<lambda>(k, vs). (k, zip cs vs)) rs))"

text \<open>The loop that builds the records: \<^verbatim>\<open>if v is not str(''): d[k] = v\<close>.\<close>

definition drop_empty :: "(string \<times> cell) list \<Rightarrow> (string \<times> cell) list" where
  "drop_empty f = filter (\<lambda>(k, v). v \<noteq> Str []) f"

text \<open>\<^verbatim>\<open>os.path.join\<close> of two components, on a POSIX system.\<close>

definition path_join :: "string \<Rightarrow> string \<Rightarrow> string" where
  "path_join a b =
     (if starts_with ''/'' b then b
      else if a = [] \<or> last a = CHR ''/'' then a @ b
      else a @ ''/'' @ b)"

definition bn_n :: "string list" where
  "bn_n = [''monthly_income'', ''water_access'', ''roof_material'', ''wall_material'',
           ''cb_size'', ''floor_area'', ''geyser_nr'']"

definition searchlist :: "string list" where
  "searchlist = [''earn per month'', ''watersource'', ''GeyserNumber'', ''GeyserBroken'',
                 ''roof'', ''wall'', ''main switch'', ''floor area'']"

text \<open>
  What a run of \<^verbatim>\<open>evidence2000\<close> leaves behind: the files it wrote (path and JSON
  document; \<^verbatim>\<open>json.dump\<close> writes the evidence as an object of objects, and the model
  keeps the document as the evidence it serialises), the lines it printed, and the value
  it returned.
\<close>

record 'a run = "'a outcome" +
  written :: "(string \<times> evidence) list"

text \<open>
  The table steps of \<^verbatim>\<open>evidence2000\<close>, from the derived geyser column to the renaming
  of the columns to the node names; \<^verbatim>\<open>featureframe.columns = ['AnswerID'] + bn_n\<close> raises
  a ValueError unless the table has eight columns.
\<close>

definition node_frame :: "frame \<Rightarrow> py_error + frame" where
  "node_frame featureframe =
     (case get_column KeyError featureframe ''115'' of
        Inl e \<Rightarrow> Inl e
      | Inr c115 \<Rightarrow>
     (case get_column KeyError featureframe ''131'' of
        Inl e \<Rightarrow> Inl e
      | Inr c131 \<Rightarrow>
     (case collect (map (\<lambda>(a, b). cell_sub a b) (zip c115 c131)) of
        Inl e \<Rightarrow> Inl e
      | Inr geyser \<Rightarrow>
     (case drop_labels [''115'', ''131''] (set_column ''geyser_nr'' geyser featureframe) of
        Inl e \<Rightarrow> Inl e
      | Inr dropped \<Rightarrow>
          if Suc (length (cols dropped)) \<noteq> length (''AnswerID'' # bn_n) then Inl ValueError
          else Inr (dropped\<lparr>cols := bn_n\<rparr>)))))"

text \<open>The binning and formatting steps, column by column in the order of the source.\<close>

definition encode_columns :: "frame \<Rightarrow> py_error + frame" where
  "encode_columns f0 =
     (case apply_column ''monthly_income'' cut_income f0 of Inl e \<Rightarrow> Inl e | Inr f1 \<Rightarrow>
     (case apply_column ''floor_area'' cut_floorarea f1 of Inl e \<Rightarrow> Inl e | Inr f2 \<Rightarrow>
     (case apply_column ''water_access'' format_0f f2 of Inl e \<Rightarrow> Inl e | Inr f3 \<Rightarrow>
     (case apply_column ''roof_material'' format_0f f3 of Inl e \<Rightarrow> Inl e | Inr f4 \<Rightarrow>
     (case apply_column ''wall_material'' format_0f f4 of Inl e \<Rightarrow> Inl e | Inr f5 \<Rightarrow>
     (case apply_column ''cb_size'' format_0f f5 of Inl e \<Rightarrow> Inl e | Inr f6 \<Rightarrow>
      apply_column ''geyser_nr'' format_0f f6))))))"

text \<open>The two columns that \<^verbatim>\<open>evidence2000\<close> assigns from \<^verbatim>\<open>pd.cut\<close>.\<close>

definition categorical_columns :: "string list" where
  "categorical_columns = [''monthly_income'', ''floor_area'']"

text \<open>
  The records: the identifier column is formatted like the code columns, the missing
  cells outside the categorical columns are replaced, the table is turned into a
  dictionary by identifier, and each record keeps the entries that are not the empty
  string. A cell that is still missing is not the empty string, and stays.
\<close>

definition build_evidence :: "frame \<Rightarrow> py_error + evidence" where
  "build_evidence f =
     (case collect (map (\<lambda>row. format_0f_int (fst row)) (rows f)) of
        Inl e \<Rightarrow> Inl e
      | Inr ids \<Rightarrow>
          (let g = replace_nan categorical_columns f;
               indexed = zip ids (map snd (rows g))
           in case to_dict_index (cols g) indexed of
                Inl e \<Rightarrow> Inl e
              | Inr featuredict \<Rightarrow>
                  Inr (zip (map fst featuredict) (map (\<lambda>(k, f). drop_empty f) featuredict))))"

text \<open>
  The body of \<^verbatim>\<open>evidence2000(year)\<close>. It calls the module's global name
  \<^verbatim>\<open>buildFeatureFrame\<close>, which the import statement of the module binds: the object
  bound to that name is the parameter \<open>buildFeatureFrame\<close>. The parent directory of the
  source directory is the parameter \<open>dlrdb_dir\<close>. Opening the file is taken to
  succeed. The function ends with a bare \<^verbatim>\<open>return\<close>.
\<close>

definition evidence2000 ::
  "(string list \<Rightarrow> year_arg \<Rightarrow> py_error + (frame \<times> featureqs)) \<Rightarrow> string \<Rightarrow> year_arg
     \<Rightarrow> py_error + evidence run" where
  "evidence2000 buildFeatureFrame dlrdb_dir year =
     (case buildFeatureFrame searchlist year of
        Inl e \<Rightarrow> Inl e
      | Inr data \<Rightarrow>
     (case node_frame (fst data) of
        Inl e \<Rightarrow> Inl e
      | Inr named \<Rightarrow>
     (case encode_columns named of
        Inl e \<Rightarrow> Inl e
      | Inr encoded \<Rightarrow>
     (case build_evidence encoded of
        Inl e \<Rightarrow> Inl e
      | Inr evidence \<Rightarrow>
          (let output_dir = path_join dlrdb_dir ''output'';
               filename = ''bn_evidence_'' @ str_year year @ ''.txt'';
               filepath = path_join output_dir filename
           in Inr \<lparr>printed = [filename @ '' successfully saved to '' @ output_dir],
                    returned = None,
                    written = [(filepath, evidence)]\<rparr>)))))"

text \<open>
  The names that \<^verbatim>\<open>socios.py\<close> binds at module level: its imports, its three path
  variables and its functions.
\<close>

definition socios_names :: "string list" where
  "socios_names = [''np'', ''pd'', ''feather'', ''glob'', ''os'', ''Path'',
     ''src_dir'', ''dlrdb_dir'', ''data_dir'',
     ''loadTables'', ''loadID'', ''loadQuestions'', ''loadAnswers'', ''searchQuestions'',
     ''typeSplitQuestions'', ''searchAnswers'', ''featureFrame'', ''checkAnswer'',
     ''Locations'', ''Lang'', ''AltE'']"

text \<open>
  \<^verbatim>\<open>from socios import name\<close>, for a name that is then called as the assembler: a name
  that the module does not bind raises an ImportError; \<^verbatim>\<open>featureFrame\<close> is the
  assembler. Calling another object of the module in its place is not modelled.
\<close>

definition import_from_socios ::
  "tables \<Rightarrow> string \<Rightarrow> py_error + (string list \<Rightarrow> year_arg \<Rightarrow> py_error + (frame \<times> featureqs))" where
  "import_from_socios T name =
     (if name \<notin> set socios_names then Inl ImportError
      else if name = ''featureFrame'' then Inr (featureFrame T)
      else Inl Unmodelled)"

text \<open>
  The module \<^verbatim>\<open>bn_evidence\<close> as shipped: line 11 is
  \<^verbatim>\<open>from socios import buildFeatureFrame\<close>, and \<^verbatim>\<open>evidence2000\<close> can be called once
  the import has succeeded.
\<close>

definition bn_evidence_evidence2000 :: "tables \<Rightarrow> string \<Rightarrow> year_arg \<Rightarrow> py_error + evidence run" where
  "bn_evidence_evidence2000 T dlrdb_dir year =
     (case import_from_socios T ''buildFeatureFrame'' of
        Inl e \<Rightarrow> Inl e
      | Inr buildFeatureFrame \<Rightarrow> evidence2000 buildFeatureFrame dlrdb_dir year)"

section \<open>A sample table store\<close>

text \<open>
  A small table store on which the functions are run: two groups (2014 and 1998), six
  link rows (among them a repeated identifier, a zero identifier and a zero group), the
  eight survey questions of the evidence encoder with three further questions, and the
  numeric answers of three respondents, two of them on questionnaire 3. Respondent 12
  has no circuit-breaker size and no geyser count.
\<close>

definition sample_questions :: "question_row list" where
  "sample_questions =
    [\<lparr>qu_QuestionID = 0, qu_Question = ''How much do you earn per month?'', qu_Datatype = ''num'', qu_QuestionaireID = 3, qu_ColumnNo = 1\<rparr>,
     \<lparr>qu_QuestionID = 1, qu_Question = ''Watersource'', qu_Datatype = ''num'', qu_QuestionaireID = 3, qu_ColumnNo = 2\<rparr>,
     \<lparr>qu_QuestionID = 2, qu_Question = ''GeyserNumber'', qu_Datatype = ''num'', qu_QuestionaireID = 3, qu_ColumnNo = 3\<rparr>,
     \<lparr>qu_QuestionID = 3, qu_Question = ''GeyserBroken'', qu_Datatype = ''num'', qu_QuestionaireID = 3, qu_ColumnNo = 4\<rparr>,
     \<lparr>qu_QuestionID = 4, qu_Question = ''Roof material'', qu_Datatype = ''num'', qu_QuestionaireID = 3, qu_ColumnNo = 5\<rparr>,
     \<lparr>qu_QuestionID = 5, qu_Question = ''Wall material'', qu_Datatype = ''num'', qu_QuestionaireID = 3, qu_ColumnNo = 6\<rparr>,
     \<lparr>qu_QuestionID = 6, qu_Question = ''Main switch size'', qu_Datatype = ''num'', qu_QuestionaireID = 3, qu_ColumnNo = 7\<rparr>,
     \<lparr>qu_QuestionID = 7, qu_Question = ''Floor area'', qu_Datatype = ''num'', qu_QuestionaireID = 3, qu_ColumnNo = 8\<rparr>,
     \<lparr>qu_QuestionID = 8, qu_Question = ''Home language'', qu_Datatype = ''char'', qu_QuestionaireID = 3, qu_ColumnNo = 1\<rparr>,
     \<lparr>qu_QuestionID = 9, qu_Question = ''Remarks on the roof'', qu_Datatype = ''blob'', qu_QuestionaireID = 3, qu_ColumnNo = 1\<rparr>,
     \<lparr>qu_QuestionID = 10, qu_Question = ''Roof type'', qu_Datatype = ''num'', qu_QuestionaireID = 6, qu_ColumnNo = 5\<rparr>]"

definition sample_answers_num :: frame where
  "sample_answers_num =
    \<lparr>cols = [''101'', ''102'', ''115'', ''131'', ''140'', ''141'', ''150'', ''160'', ''lock''],
     rows = [(11, [Num 5000, Num 1, Num 2, Num 1, Num 3, Num 4, Num 20, Num 90, Num 0]),
             (12, [Num 1799, Num 2, NaN, Num 0, Num 2, Num 2, NaN, Num 600, Num 0]),
             (21, [Num 100, Num 2, Num 1, Num 0, Num 2, Num 2, Num 60, Num 30, Num 0])]\<rparr>"

definition sample_answers :: frame where
  "sample_answers =
    \<lparr>cols = [''QuestionaireID'', ''lock''],
     rows = [(11, [Num 3, Num 0]), (12, [Num 3, Num 0]), (21, [Num 6, Num 0])]\<rparr>"

definition sample_tables :: tables where
  "sample_tables =
    \<lparr>groups = Some [\<lparr>group_GroupID = 1, group_Year = ''2014'', group_Location = ''1 Town''\<rparr>,
                    \<lparr>group_GroupID = 2, group_Year = ''1998'', group_Location = ''2 Farm''\<rparr>],
     links = Some [\<lparr>link_GroupID = 1, link_AnswerID = 11, link_ProfileID = 101\<rparr>,
                   \<lparr>link_GroupID = 1, link_AnswerID = 12, link_ProfileID = 102\<rparr>,
                   \<lparr>link_GroupID = 1, link_AnswerID = 11, link_ProfileID = 103\<rparr>,
                   \<lparr>link_GroupID = 1, link_AnswerID = 0, link_ProfileID = 104\<rparr>,
                   \<lparr>link_GroupID = 0, link_AnswerID = 13, link_ProfileID = 105\<rparr>,
                   \<lparr>link_GroupID = 2, link_AnswerID = 21, link_ProfileID = 201\<rparr>],
     questions = Some sample_questions,
     qconstraints = Some [\<lparr>con_Lower = Num 0, con_Upper = Num 100000\<rparr>],
     questionaires = Some [3, 6],
     answers = Some sample_answers,
     answers_blob_anon = None,
     answers_char_anon = None,
     answers_num = Some sample_answers_num\<rparr>"

text \<open>
  The record that a run wrote for a respondent: the entry of the first written document
  under the formatted identifier.
\<close>

definition written_record :: "py_error + evidence run \<Rightarrow> string \<Rightarrow> (string \<times> cell) list option" where
  "written_record res k =
     (case res of
        Inl e \<Rightarrow> None
      | Inr r \<Rightarrow> (case written r of [] \<Rightarrow> None | (path, ev) # others \<Rightarrow> map_of ev k))"

text \<open>
  The table of the sample store for 2014 after the renaming of its columns to the node
  names; respondent 12 has no \<open>cb_size\<close>.
\<close>

definition sample_named :: frame where
  "sample_named =
     \<lparr>cols = bn_n,
      rows = [(11, [Num 5000, Num 1, Num 3, Num 4, Num 20, Num 90, Num 1]),
              (12, [Num 1799, Num 2, Num 2, Num 2, NaN, Num 600, NaN])]\<rparr>"

section \<open>Identity Resolver: properties\<close>

lemma set_unique: "set (unique xs) = set xs"
  by (induction xs rule: unique.induct) auto

lemma distinct_unique: "distinct (unique xs)"
  by (induction xs rule: unique.induct) (auto simp: set_unique)

lemma link_col_cases:
  "link_col n = Some col \<Longrightarrow> col = link_AnswerID \<or> col = link_ProfileID \<or> col = link_GroupID"
  by (auto simp: link_col_def split: if_splits)

text \<open>
  C9. For every year, and when the year is omitted, every table store and either
  identifier kind: when the Identity Resolver returns, the identifiers it returns are
  pairwise different, none is zero, and each is the identifier of a link row whose group
  id is non-zero too. It returns whenever the tables it reads are present.
\<close>

theorem loadID_distinct_nonzero:
  "(loadID T year id_name = Inr ids \<longrightarrow>
      distinct ids \<and> 0 \<notin> set ids \<and>
      (\<exists>col ls. link_col id_name = Some col \<and> links T = Some ls \<and>
         (\<forall>i \<in> set ids. \<exists>l \<in> set ls. col l = i \<and> link_GroupID l \<noteq> 0 \<and> i \<noteq> 0))) \<and>
   (links T \<noteq> None \<and> link_col id_name \<noteq> None \<and> (year \<noteq> None \<longrightarrow> groups T \<noteq> None) \<longrightarrow>
      (\<exists>ids. loadID T year id_name = Inr ids))"
  by (auto simp: loadID_def Let_def set_unique distinct_unique
           split: option.splits)

theorem loadID_distinct_nonzero_witness:
  "loadID sample_tables (Some (YInt 2014)) ''AnswerID'' = Inr [11, 12] \<and>
   loadID sample_tables None ''ProfileID'' = Inr [101, 102, 103, 104, 201] \<and>
   distinct [11, 12 :: int] \<and> 0 \<notin> set [11, 12 :: int]"
proof -
  have with_year: "loadID sample_tables (Some (YInt 2014)) ''AnswerID'' = Inr [11, 12]"
    by code_simp
  have no_year: "loadID sample_tables None ''ProfileID'' = Inr [101, 102, 103, 104, 201]"
    by code_simp
  from loadID_distinct_nonzero [of sample_tables "Some (YInt 2014)" "''AnswerID''" "[11, 12]"]
    with_year no_year
  show ?thesis by simp
qed

section \<open>Evidence Encoder: the income bins\<close>

text \<open>
  C4. The binning of \<open>monthly_income\<close> sends every number of \<open>[0, 1800)\<close> to
  \<open>R0-R1799\<close>, of \<open>[1800, 3200)\<close> to \<open>R1800-R3199\<close>, and so on through
  \<open>[65600, 500000)\<close> to \<open>+R65500\<close>; every number below 0 or from 500000 on becomes
  missing, and a missing value stays missing. No number raises an error.
\<close>

theorem cut_income_bins:
  "(0 \<le> x \<and> x < 1800 \<longrightarrow> cut_income (Num x) = Inr (Str ''R0-R1799'')) \<and>
   (1800 \<le> x \<and> x < 3200 \<longrightarrow> cut_income (Num x) = Inr (Str ''R1800-R3199'')) \<and>
   (3200 \<le> x \<and> x < 7800 \<longrightarrow> cut_income (Num x) = Inr (Str ''R3200-R7799'')) \<and>
   (7800 \<le> x \<and> x < 11600 \<longrightarrow> cut_income (Num x) = Inr (Str ''R7800-R11599'')) \<and>
   (11600 \<le> x \<and> x < 19116 \<longrightarrow> cut_income (Num x) = Inr (Str ''R11600-R19115'')) \<and>
   (19116 \<le> x \<and> x < 24500 \<longrightarrow> cut_income (Num x) = Inr (Str ''R19116-R24499'')) \<and>
   (24500 \<le> x \<and> x < 65600 \<longrightarrow> cut_income (Num x) = Inr (Str ''R24500-R65499'')) \<and>
   (65600 \<le> x \<and> x < 500000 \<longrightarrow> cut_income (Num x) = Inr (Str ''+R65500'')) \<and>
   (x < 0 \<or> 500000 \<le> x \<longrightarrow> cut_income (Num x) = Inr NaN) \<and>
   cut_income NaN = Inr NaN \<and>
   (\<exists>c. cut_income (Num x) = Inr c)"
  by (simp add: cut_income_def cut_def income_bins_def income_labels_def)

theorem cut_income_bins_witness:
  "cut_income (Num 0) = Inr (Str ''R0-R1799'') \<and>
   cut_income (Num (3599 / 2)) = Inr (Str ''R0-R1799'') \<and>
   cut_income (Num 1800) = Inr (Str ''R1800-R3199'') \<and>
   cut_income (Num 5000) = Inr (Str ''R3200-R7799'') \<and>
   cut_income (Num 7800) = Inr (Str ''R7800-R11599'') \<and>
   cut_income (Num 19115) = Inr (Str ''R11600-R19115'') \<and>
   cut_income (Num 19116) = Inr (Str ''R19116-R24499'') \<and>
   cut_income (Num 65599) = Inr (Str ''R24500-R65499'') \<and>
   cut_income (Num 499999) = Inr (Str ''+R65500'') \<and>
   cut_income (Num (- 1)) = Inr NaN \<and>
   cut_income (Num 500000) = Inr NaN"
  using cut_income_bins [of 0] cut_income_bins [of "3599 / 2"] cut_income_bins [of 1800]
    cut_income_bins [of 5000] cut_income_bins [of 7800] cut_income_bins [of 19115]
    cut_income_bins [of 19116] cut_income_bins [of 65599] cut_income_bins [of 499999]
    cut_income_bins [of "- 1"] cut_income_bins [of 500000]
  by simp

section \<open>Question Resolver: properties\<close>

lemma starts_with_iff: "starts_with p s \<longleftrightarrow> (\<exists>post. s = p @ post)"
  by (induction p s rule: starts_with.induct) auto

lemma is_substring_iff: "is_substring p s \<longleftrightarrow> (\<exists>pre post. s = pre @ p @ post)"
proof (induction p s rule: is_substring.induct)
  case (1 p)
  then show ?case by auto
next
  case (2 p c cs)
  show ?case
  proof
    assume "is_substring p (c # cs)"
    then consider "starts_with p (c # cs)" | "is_substring p cs" by auto
    then show "\<exists>pre post. c # cs = pre @ p @ post"
    proof cases
      case 1
      then obtain post where "c # cs = p @ post" by (auto simp: starts_with_iff)
      then have "c # cs = [] @ p @ post" by simp
      then show ?thesis by blast
    next
      case 2
      with "2.IH" obtain pre post where "cs = pre @ p @ post" by auto
      then have "c # cs = (c # pre) @ p @ post" by simp
      then show ?thesis by blast
    qed
  next
    assume "\<exists>pre post. c # cs = pre @ p @ post"
    then obtain pre post where eq: "c # cs = pre @ p @ post" by auto
    show "is_substring p (c # cs)"
    proof (cases pre)
      case Nil
      with eq have "starts_with p (c # cs)" by (auto simp: starts_with_iff)
      then show ?thesis by simp
    next
      case (Cons a pre')
      with eq have "cs = pre' @ p @ post" by simp
      with "2.IH" have "is_substring p cs" by auto
      then show ?thesis by simp
    qed
  qed
qed

lemma split_bar_plain: "CHR ''|'' \<notin> set t \<Longrightarrow> split_bar t = [t]"
  by (induction t) auto

lemma split_bar_append:
  "CHR ''|'' \<notin> set t \<Longrightarrow> split_bar (t @ CHR ''|'' # rest) = t # split_bar rest"
  by (induction t) auto

lemma split_bar_join:
  "ts \<noteq> [] \<Longrightarrow> \<forall>t \<in> set ts. CHR ''|'' \<notin> set t \<Longrightarrow> split_bar (bar_join ts) = ts"
proof (induction ts rule: bar_join.induct)
  case 1
  then show ?case by simp
next
  case (2 t)
  then show ?case by (simp add: split_bar_plain)
next
  case (3 t v va)
  then show ?case by (simp add: split_bar_append)
qed

lemma set_bar_join: "set (bar_join ts) \<subseteq> insert (CHR ''|'') (\<Union>t \<in> set ts. set t)"
  by (induction ts rule: bar_join.induct) auto

lemma lower_char_special: "lower_char c \<in> set regex_special \<longleftrightarrow> c \<in> set regex_special"
  by (auto simp: lower_char_def regex_special_def regex_other_special_def
           split: option.splits dest!: map_of_SomeD)


lemma set_lower_special:
  "(\<exists>c \<in> set (lower t). c \<in> set regex_special) \<longleftrightarrow> (\<exists>c \<in> set t. c \<in> set regex_special)"
  by (auto simp: lower_def lower_char_special)

lemma loadQuestions_dtype:
  "loadQuestions T (Some d) = Inr qu \<Longrightarrow>
   \<exists>qa. loadQuestions T None = Inr qa \<and> qu = filter (\<lambda>q. qu_Datatype q = d) qa"
  by (auto simp: loadQuestions_def Let_def split: option.splits if_splits)

lemma join_qcons_fields:
  "Question (join_qcons qcons q) = qu_Question q"
  "Datatype (join_qcons qcons q) = qu_Datatype q"
  "QuestionaireID (join_qcons qcons q) = qu_QuestionaireID q"
  "ColumnNo (join_qcons qcons q) = qu_ColumnNo q"
  by (simp_all add: join_qcons_def Let_def)

lemma select_matching_plain:
  assumes "ts \<noteq> []" and "\<forall>t \<in> set ts. \<forall>c \<in> set t. c \<notin> set regex_special"
  shows "select_matching (map lower ts) qdf =
     Inr \<lparr>printed = [], returned = Some (filter (\<lambda>r. \<exists>t \<in> set ts. ci_substring t (Question r)) qdf)\<rparr>"
proof -
  let ?ls = "map lower ts"
  have plain: "\<forall>t \<in> set ?ls. \<forall>c \<in> set t. c \<notin> set regex_special"
    using assms(2) set_lower_special by fastforce
  then have nobar: "\<forall>t \<in> set ?ls. CHR ''|'' \<notin> set t"
    by (auto simp: regex_special_def)
  have "\<not> (\<exists>c \<in> set (bar_join ?ls). c \<in> set regex_other_special)"
  proof
    assume "\<exists>c \<in> set (bar_join ?ls). c \<in> set regex_other_special"
    then obtain c where c: "c \<in> set (bar_join ?ls)" "c \<in> set regex_other_special" by auto
    from c(2) have "c \<noteq> CHR ''|''" by (auto simp: regex_other_special_def)
    from c(1) set_bar_join [of ?ls] have "c \<in> insert (CHR ''|'') (\<Union>t \<in> set ?ls. set t)"
      by blast
    with \<open>c \<noteq> CHR ''|''\<close> obtain t where "t \<in> set ?ls" "c \<in> set t" by blast
    with plain c(2) show False by (auto simp: regex_special_def)
  qed
  moreover have "split_bar (bar_join ?ls) = ?ls"
    using assms(1) nobar by (intro split_bar_join) auto
  ultimately show ?thesis
    by (simp add: select_matching_def Let_def str_contains_def ci_substring_def)
qed

text \<open>
  C6, as amended. For every search term argument that holds at least one term and whose
  terms contain no regular-expression metacharacter, every optional questionnaire id and
  optional data type: the table that the Question Resolver returns consists of exactly
  the questions, first restricted to the data type and then to the questionnaire id,
  whose text contains at least one of the terms as a case-insensitive substring.
\<close>

theorem searchQuestions_plain_terms:
  assumes nonempty: "as_list searchterm \<noteq> []"
    and plain: "\<forall>t \<in> set (as_list searchterm). \<forall>c \<in> set t. c \<notin> set regex_special"
    and run: "searchQuestions T searchterm qnairid dtype = Inr out"
    and res: "returned out = Some res"
  shows "\<exists>qcons qu. qconstraints T = Some qcons \<and> loadQuestions T None = Inr qu \<and>
     res = filter (\<lambda>r. \<exists>t \<in> set (as_list searchterm). ci_substring t (Question r))
             (filter (\<lambda>r. \<forall>i. qnairid = Some i \<longrightarrow> QuestionaireID r = i)
               (filter (\<lambda>r. \<forall>d. dtype = Some d \<longrightarrow> Datatype r = d)
                 (map (join_qcons qcons) qu)))"
proof -
  from run obtain qcons where qcons: "qconstraints T = Some qcons"
    by (auto simp: searchQuestions_def Let_def split: option.splits)
  from run qcons obtain qd where qd: "loadQuestions T dtype = Inr qd"
    by (auto simp: searchQuestions_def Let_def split: sum.splits)
  obtain qu where qu: "loadQuestions T None = Inr qu"
    and qd_eq: "qd = filter (\<lambda>q. \<forall>d. dtype = Some d \<longrightarrow> qu_Datatype q = d) qu"
  proof (cases dtype)
    case None
    with qd show ?thesis by (intro that [of qd]) auto
  next
    case (Some d)
    with qd loadQuestions_dtype [of T d qd] show ?thesis by (auto intro: that)
  qed
  have typed: "map (join_qcons qcons) qd =
      filter (\<lambda>r. \<forall>d. dtype = Some d \<longrightarrow> Datatype r = d) (map (join_qcons qcons) qu)"
    by (simp add: qd_eq filter_map o_def join_qcons_fields)
  from run qcons qd obtain qnairids where ids: "questionaires T = Some qnairids"
    by (auto simp: searchQuestions_def Let_def split: option.splits)
  note sel = select_matching_plain [OF nonempty plain]
  have "res = filter (\<lambda>r. \<exists>t \<in> set (as_list searchterm). ci_substring t (Question r))
             (filter (\<lambda>r. \<forall>i. qnairid = Some i \<longrightarrow> QuestionaireID r = i)
               (map (join_qcons qcons) qd))"
  proof (cases qnairid)
    case None
    with run res qcons qd ids show ?thesis
      by (auto simp: searchQuestions_def Let_def sel)
  next
    case (Some i)
    with run res qcons qd ids show ?thesis
      by (auto simp: searchQuestions_def Let_def sel split: if_splits)
  qed
  with qcons qu typed show ?thesis by simp
qed

text \<open>
  C8. When the questionnaire id is no member of the known questionnaire ids, the
  Question Resolver prints the request for a valid id followed by the list of the valid
  ids, and returns no table: its value is \<open>None\<close>, not an empty table.
\<close>

theorem searchQuestions_invalid_id:
  assumes "qconstraints T = Some qcons" and "loadQuestions T dtype = Inr qu"
    and "questionaires T = Some qnairids" and "i \<notin> set qnairids"
  shows "searchQuestions T searchterm (Some i) dtype =
     Inr \<lparr>printed = [''Please select a valid QuestionaireID '' @ repr_int_list qnairids],
          returned = None\<rparr>"
  using assms by (simp add: searchQuestions_def Let_def)


theorem searchQuestions_plain_terms_witness:
  "searchQuestions sample_tables (Term ''roof'') (Some 3) (Some ''num'') =
     Inr \<lparr>printed = [],
          returned = Some [\<lparr>Question = ''Roof material'', Datatype = ''num'', QuestionaireID = 3,
                            ColumnNo = 5, Lower = NaN, Upper = NaN\<rparr>]\<rparr> \<and>
   (\<exists>qcons qu. qconstraints sample_tables = Some qcons \<and>
      loadQuestions sample_tables None = Inr qu \<and>
      [\<lparr>Question = ''Roof material'', Datatype = ''num'', QuestionaireID = 3,
        ColumnNo = 5, Lower = NaN, Upper = NaN\<rparr>] =
      filter (\<lambda>r. \<exists>t \<in> set [''roof'']. ci_substring t (Question r))
        (filter (\<lambda>r. QuestionaireID r = 3)
          (filter (\<lambda>r. Datatype r = ''num'') (map (join_qcons qcons) qu))))"
proof -
  have run: "searchQuestions sample_tables (Term ''roof'') (Some 3) (Some ''num'') =
     Inr \<lparr>printed = [],
          returned = Some [\<lparr>Question = ''Roof material'', Datatype = ''num'', QuestionaireID = 3,
                            ColumnNo = 5, Lower = NaN, Upper = NaN\<rparr>]\<rparr>"
    by code_simp
  have plain: "\<forall>t \<in> set (as_list (Term ''roof'')). \<forall>c \<in> set t. c \<notin> set regex_special"
    by (simp add: regex_special_def regex_other_special_def)
  from searchQuestions_plain_terms [OF _ plain run] run show ?thesis by simp
qed

text \<open>
  The search terms are joined with a bar into one regular expression, so a term is read
  as a pattern, not as a literal: the single term \<open>roof|wall\<close> selects the questions
  on roofs and on walls, and neither text contains the term itself.
\<close>

theorem searchQuestions_regex_counterexample:
  "searchQuestions sample_tables (Terms [''roof|wall'']) (Some 3) (Some ''num'') =
     Inr \<lparr>printed = [],
          returned = Some [\<lparr>Question = ''Roof material'', Datatype = ''num'', QuestionaireID = 3,
                            ColumnNo = 5, Lower = NaN, Upper = NaN\<rparr>,
                           \<lparr>Question = ''Wall material'', Datatype = ''num'', QuestionaireID = 3,
                            ColumnNo = 6, Lower = NaN, Upper = NaN\<rparr>]\<rparr> \<and>
   \<not> ci_substring ''roof|wall'' ''Roof material'' \<and>
   \<not> ci_substring ''roof|wall'' ''Wall material''"
  by code_simp

theorem searchQuestions_invalid_id_witness:
  "searchQuestions sample_tables (Term ''roof'') (Some 4) (Some ''num'') =
     Inr \<lparr>printed = [''Please select a valid QuestionaireID [3, 6]''], returned = None\<rparr>"
proof -
  have "\<not> isl (loadQuestions sample_tables (Some ''num''))" by code_simp
  then obtain qu where lq: "loadQuestions sample_tables (Some ''num'') = Inr qu"
    by (cases "loadQuestions sample_tables (Some ''num'')") auto
  have qc: "qconstraints sample_tables = Some [\<lparr>con_Lower = Num 0, con_Upper = Num 100000\<rparr>]"
    by (simp add: sample_tables_def)
  have ids: "questionaires sample_tables = Some [3, 6]" by (simp add: sample_tables_def)
  have shown: "repr_int_list [3, 6] = ''[3, 6]''" by code_simp
  from searchQuestions_invalid_id [OF qc lq ids, of 4 "Term ''roof''"] shown
  show ?thesis by simp
qed


section \<open>Feature Assembler: properties\<close>

lemma join_key_fst: "set (map fst (join_key nl nr ls rs k)) \<subseteq> {k}"
  by (auto simp: join_key_def Let_def)

lemma join_key_nonempty:
  "k \<in> fst ` set ls \<union> fst ` set rs \<Longrightarrow> join_key nl nr ls rs k \<noteq> []"
  by (auto simp: join_key_def Let_def filter_empty_conv)

lemma join_key_keys:
  "k \<in> fst ` set ls \<union> fst ` set rs \<Longrightarrow> fst ` set (join_key nl nr ls rs k) = {k}"
proof -
  assume k: "k \<in> fst ` set ls \<union> fst ` set rs"
  from join_key_nonempty [OF k, of nl nr] obtain r where "r \<in> set (join_key nl nr ls rs k)"
    by (cases "join_key nl nr ls rs k") auto
  moreover have "fst ` set (join_key nl nr ls rs k) \<subseteq> {k}"
    using join_key_fst [of nl nr ls rs k] by simp
  ultimately show ?thesis by force
qed

lemma merge_outer_keys:
  "fst ` set (rows (merge_outer l r)) = fst ` set (rows l) \<union> fst ` set (rows r)"
proof -
  let ?keys = "unique (map fst (rows l) @ map fst (rows r))"
  let ?j = "join_key (length (cols l)) (length (cols r)) (rows l) (rows r)"
  have ks: "set ?keys = fst ` set (rows l) \<union> fst ` set (rows r)"
    by (simp add: set_unique)
  have "fst ` set (rows (merge_outer l r)) = (\<Union>k \<in> set ?keys. fst ` set (?j k))"
    by (auto simp: merge_outer_def Let_def)
  also have "\<dots> = (\<Union>k \<in> set ?keys. {k})"
    using join_key_keys ks by (intro SUP_cong) auto
  also have "\<dots> = set ?keys" by auto
  finally show ?thesis using ks by simp
qed

lemma filter_key_le_1:
  "distinct (map fst xs) \<Longrightarrow> length (filter (\<lambda>row. fst row = k) xs) \<le> 1"
  by (induction xs) (auto simp: filter_empty_conv image_iff)

lemma join_key_single:
  assumes "distinct (map fst ls)" and "distinct (map fst rs)"
    and "k \<in> fst ` set ls \<union> fst ` set rs"
  shows "map fst (join_key nl nr ls rs k) = [k]"
proof -
  let ?lk = "filter (\<lambda>row. fst row = k) ls" and ?rk = "filter (\<lambda>row. fst row = k) rs"
  from filter_key_le_1 [OF assms(1), of k] consider "?lk = []" | a where "?lk = [a]"
    by (cases ?lk rule: list.exhaust) (auto simp: Suc_le_eq)
  note lcases = this
  from filter_key_le_1 [OF assms(2), of k] consider "?rk = []" | b where "?rk = [b]"
    by (cases ?rk rule: list.exhaust) (auto simp: Suc_le_eq)
  note rcases = this
  have ne: "?lk \<noteq> [] \<or> ?rk \<noteq> []" using assms(3) by (auto simp: filter_empty_conv)
  show ?thesis
  proof (cases rule: lcases)
    case 1
    with ne obtain b where "?rk = [b]" using rcases by auto
    with 1 show ?thesis by (simp add: join_key_def Let_def)
  next
    case (2 a)
    show ?thesis
    proof (cases rule: rcases)
      case 1
      with 2 show ?thesis by (simp add: join_key_def Let_def)
    next
      case (2 b)
      with \<open>?lk = [a]\<close> show ?thesis by (simp add: join_key_def Let_def)
    qed
  qed
qed

lemma merge_outer_distinct:
  assumes "distinct (map fst (rows l))" and "distinct (map fst (rows r))"
  shows "distinct (map fst (rows (merge_outer l r)))"
proof -
  let ?keys = "unique (map fst (rows l) @ map fst (rows r))"
  let ?j = "join_key (length (cols l)) (length (cols r)) (rows l) (rows r)"
  have "map fst (rows (merge_outer l r)) = concat (map (\<lambda>k. map fst (?j k)) ?keys)"
    by (simp add: merge_outer_def Let_def map_concat o_def)
  also have "\<dots> = concat (map (\<lambda>k. [k]) ?keys)"
    using join_key_single [OF assms]
    by (intro arg_cong [where f = concat] map_cong) (auto simp: set_unique)
  also have "\<dots> = ?keys" by (induction ?keys) auto
  finally show ?thesis by (simp add: distinct_unique)
qed

lemma drop_labels_keys: "drop_labels ls f = Inr g \<Longrightarrow> map fst (rows g) = map fst (rows f)"
  by (auto simp: drop_labels_def split: if_splits)

lemma searchAnswers_num_distinct:
  assumes "searchAnswers T st qn ''num'' = Inr (d, q)"
    and "\<forall>a. answers_num T = Some a \<longrightarrow> distinct (map fst (rows a))"
  shows "distinct (map fst (rows d))"
proof -
  from assms(1) obtain ans where ans: "loadAnswers T (Some ''num'') = Inr ans"
    by (auto simp: searchAnswers_def split: sum.splits)
  then obtain a where a: "answers_num T = Some a" and dl: "drop_labels [''lock''] a = Inr ans"
    by (auto simp: loadAnswers_def split: option.splits)
  with assms(2) drop_labels_keys [OF dl] have dist: "distinct (map fst (rows ans))" by simp
  from assms(1) ans dist show ?thesis
    by (auto simp: searchAnswers_def Let_def o_def split_def distinct_map_filter
             split: sum.splits option.splits if_splits)
qed

lemma featureFrame_loop_keys:
  "featureFrame_loop T year fs data fqs = Inr (data', fqs') \<Longrightarrow>
   fst ` set (rows data') = fst ` set (rows data)"
proof (induction fs arbitrary: data fqs)
  case Nil
  then show ?case by simp
next
  case (Cons f fs)
  from Cons.prems obtain d q where
    rest: "featureFrame_loop T year fs
            (merge_outer data (d\<lparr>rows := filter (\<lambda>row. fst row \<in> set (map fst (rows data))) (rows d)\<rparr>))
            (fqs @ map (\<lambda>(c, t). (c, t, f)) q) = Inr (data', fqs')"
    by (auto simp: Let_def split: year_arg.splits sum.splits prod.splits)
  from Cons.IH [OF rest] show ?case
    by (auto simp: merge_outer_keys)
qed

lemma featureFrame_loop_distinct:
  "featureFrame_loop T year fs data fqs = Inr (data', fqs') \<Longrightarrow>
   \<forall>a. answers_num T = Some a \<longrightarrow> distinct (map fst (rows a)) \<Longrightarrow>
   distinct (map fst (rows data)) \<Longrightarrow> distinct (map fst (rows data'))"
proof (induction fs arbitrary: data fqs)
  case Nil
  then show ?case by simp
next
  case (Cons f fs)
  from Cons.prems(1) obtain y :: int and d q where
    sa: "searchAnswers T (Term f) (if y \<le> 1999 then 6 else 3) ''num'' = Inr (d, q)" and
    rest: "featureFrame_loop T year fs
            (merge_outer data (d\<lparr>rows := filter (\<lambda>row. fst row \<in> set (map fst (rows data))) (rows d)\<rparr>))
            (fqs @ map (\<lambda>(c, t). (c, t, f)) q) = Inr (data', fqs')"
    by (auto simp: Let_def split: year_arg.splits sum.splits prod.splits)
  from searchAnswers_num_distinct [OF sa Cons.prems(2)]
  have "distinct (map fst (filter (\<lambda>row. fst row \<in> set (map fst (rows data))) (rows d)))"
    by (simp add: distinct_map_filter)
  with Cons.prems(3) have "distinct (map fst (rows (merge_outer data
      (d\<lparr>rows := filter (\<lambda>row. fst row \<in> set (map fst (rows data))) (rows d)\<rparr>))))"
    by (intro merge_outer_distinct) auto
  from Cons.IH [OF rest Cons.prems(2) this] show ?case .
qed

lemma loadID_distinct: "loadID T year n = Inr ids \<Longrightarrow> distinct ids"
  by (auto simp: loadID_def Let_def distinct_unique split: option.splits)

text \<open>
  C10. For every feature list and year: when the Feature Assembler returns, the set of
  respondent identifiers of its table is exactly the set that the Identity Resolver
  returns for the year. Each feature's answer rows are restricted to the identifiers of
  the working table before the outer join, so the join adds no other respondent.
\<close>

theorem featureFrame_ids_exact:
  assumes "featureFrame T features year = Inr (data, fqs)"
  shows "\<exists>ids. loadID T (Some year) ''AnswerID'' = Inr ids \<and>
           set (map fst (rows data)) = set ids"
proof -
  from assms obtain ids where ids: "loadID T (Some year) ''AnswerID'' = Inr ids"
    and loop: "featureFrame_loop T year features \<lparr>cols = [], rows = map (\<lambda>i. (i, [])) ids\<rparr> [] =
                 Inr (data, fqs)"
    by (auto simp: featureFrame_def split: sum.splits)
  from featureFrame_loop_keys [OF loop] have "fst ` set (rows data) = set ids"
    by (simp add: image_image)
  with ids show ?thesis by simp
qed

text \<open>
  C7. For every feature list and year: when the Feature Assembler returns, its table has
  at least as many rows as the Identity Resolver returns identifiers for the year; and
  on a store whose numeric answer table is keyed by the respondent identifier (no
  identifier in two rows, as the data model has it), the respondent identifiers of the
  assembled table are pairwise different.
\<close>

theorem featureFrame_rows:
  assumes "featureFrame T features year = Inr (data, fqs)"
  shows "\<exists>ids. loadID T (Some year) ''AnswerID'' = Inr ids \<and>
           length ids \<le> length (rows data) \<and>
           ((\<forall>a. answers_num T = Some a \<longrightarrow> distinct (map fst (rows a))) \<longrightarrow>
              distinct (map fst (rows data)))"
proof -
  from assms obtain ids where ids: "loadID T (Some year) ''AnswerID'' = Inr ids"
    and loop: "featureFrame_loop T year features \<lparr>cols = [], rows = map (\<lambda>i. (i, [])) ids\<rparr> [] =
                 Inr (data, fqs)"
    by (auto simp: featureFrame_def split: sum.splits)
  have dist: "distinct ids" using ids by (rule loadID_distinct)
  from featureFrame_loop_keys [OF loop] have keys: "fst ` set (rows data) = set ids"
    by (simp add: image_image)
  have "length ids = card (set ids)" using dist by (simp add: distinct_card)
  also have "\<dots> = card (fst ` set (rows data))" using keys by simp
  also have "\<dots> \<le> card (set (rows data))" by (simp add: card_image_le)
  also have "\<dots> \<le> length (rows data)" by (rule card_length)
  finally have len: "length ids \<le> length (rows data)" .
  have "distinct (map fst (rows data))"
    if "\<forall>a. answers_num T = Some a \<longrightarrow> distinct (map fst (rows a))"
    using featureFrame_loop_distinct [OF loop that] dist
    by (simp add: o_def)
  with ids len show ?thesis by blast
qed


theorem featureFrame_ids_exact_witness:
  "featureFrame sample_tables [''roof'', ''wall''] (YInt 2014) =
     Inr (\<lparr>cols = [''140'', ''141''], rows = [(11, [Num 3, Num 4]), (12, [Num 2, Num 2])]\<rparr>,
          [(5, ''Roof material'', ''roof''), (6, ''Wall material'', ''wall'')]) \<and>
   (\<exists>ids. loadID sample_tables (Some (YInt 2014)) ''AnswerID'' = Inr ids \<and>
      set (map fst [(11 :: int, [Num 3, Num 4]), (12, [Num 2, Num 2])]) = set ids)"
proof -
  have run: "featureFrame sample_tables [''roof'', ''wall''] (YInt 2014) =
     Inr (\<lparr>cols = [''140'', ''141''], rows = [(11, [Num 3, Num 4]), (12, [Num 2, Num 2])]\<rparr>,
          [(5, ''Roof material'', ''roof''), (6, ''Wall material'', ''wall'')])"
    by code_simp
  from featureFrame_ids_exact [OF run] run show ?thesis by simp
qed

theorem featureFrame_rows_witness:
  "featureFrame sample_tables [''roof''] (YInt 1998) =
     Inr (\<lparr>cols = [''140''], rows = [(21, [Num 2])]\<rparr>, [(5, ''Roof type'', ''roof'')]) \<and>
   (\<exists>ids. loadID sample_tables (Some (YInt 1998)) ''AnswerID'' = Inr ids \<and>
      length ids \<le> length [(21 :: int, [Num 2])] \<and>
      distinct (map fst [(21 :: int, [Num 2])]))"
proof -
  have run: "featureFrame sample_tables [''roof''] (YInt 1998) =
     Inr (\<lparr>cols = [''140''], rows = [(21, [Num 2])]\<rparr>, [(5, ''Roof type'', ''roof'')])"
    by code_simp
  have keyed: "\<forall>a. answers_num sample_tables = Some a \<longrightarrow> distinct (map fst (rows a))"
    by (simp add: sample_tables_def sample_answers_num_def)
  from featureFrame_rows [OF run] keyed run show ?thesis by simp
qed

section \<open>Evidence Encoder: properties\<close>

lemma collect_length: "collect rs = Inr vs \<Longrightarrow> length vs = length rs"
  by (induction rs arbitrary: vs) (auto split: sum.splits)

lemma get_column_length: "get_column e f n = Inr vs \<Longrightarrow> length vs = length (rows f)"
  by (auto simp: get_column_def split: list.splits)

lemma get_column_member: "get_column e f n = Inr vs \<Longrightarrow> n \<in> set (cols f)"
proof -
  assume "get_column e f n = Inr vs"
  then have "positions (cols f) n \<noteq> []" by (auto simp: get_column_def)
  then obtain i where "i \<in> set (positions (cols f) n)" by (cases "positions (cols f) n") auto
  then show ?thesis by (auto simp: positions_def)
qed

lemma map_fst_zip_rows:
  "length vals = length rs \<Longrightarrow> map (\<lambda>((k, cs), v). k) (zip rs vals) = map fst rs"
  by (induction rs arbitrary: vals) (auto simp: length_Suc_conv)

lemma set_column_keys:
  "length vals = length (rows f) \<Longrightarrow> map fst (rows (set_column n vals f)) = map fst (rows f)"
  using map_fst_zip_rows [of vals "rows f"]
  by (auto simp: set_column_def o_def split_def)

lemma set_column_cols: "n \<in> set (cols f) \<Longrightarrow> cols (set_column n vals f) = cols f"
  by (simp add: set_column_def)

lemma apply_column_keeps:
  assumes "apply_column n g f = Inr f'"
  shows "map fst (rows f') = map fst (rows f) \<and> cols f' = cols f"
proof -
  from assms obtain vals vals' where gc: "get_column AttributeError f n = Inr vals"
    and co: "collect (map g vals) = Inr vals'" and f': "f' = set_column n vals' f"
    by (auto simp: apply_column_def split: sum.splits)
  from collect_length [OF co] get_column_length [OF gc] have "length vals' = length (rows f)"
    by simp
  with f' get_column_member [OF gc] show ?thesis
    by (simp add: set_column_keys set_column_cols)
qed

lemma encode_columns_keeps:
  assumes "encode_columns f = Inr f'"
  shows "map fst (rows f') = map fst (rows f) \<and> cols f' = cols f"
proof -
  from assms obtain f1 f2 f3 f4 f5 f6 where
    "apply_column ''monthly_income'' cut_income f = Inr f1"
    "apply_column ''floor_area'' cut_floorarea f1 = Inr f2"
    "apply_column ''water_access'' format_0f f2 = Inr f3"
    "apply_column ''roof_material'' format_0f f3 = Inr f4"
    "apply_column ''wall_material'' format_0f f4 = Inr f5"
    "apply_column ''cb_size'' format_0f f5 = Inr f6"
    "apply_column ''geyser_nr'' format_0f f6 = Inr f'"
    by (auto simp: encode_columns_def split: sum.splits)
  then show ?thesis by (auto dest!: apply_column_keeps)
qed

lemma node_frame_keeps:
  assumes "node_frame f = Inr f'"
  shows "map fst (rows f') = map fst (rows f) \<and> cols f' = bn_n"
proof -
  from assms obtain c115 c131 geyser dropped where
    g1: "get_column KeyError f ''115'' = Inr c115" and
    g2: "get_column KeyError f ''131'' = Inr c131" and
    co: "collect (map (\<lambda>(a, b). cell_sub a b) (zip c115 c131)) = Inr geyser" and
    dr: "drop_labels [''115'', ''131''] (set_column ''geyser_nr'' geyser f) = Inr dropped" and
    f': "f' = dropped\<lparr>cols := bn_n\<rparr>"
    by (auto simp: node_frame_def split: sum.splits if_splits)
  from collect_length [OF co] get_column_length [OF g1] get_column_length [OF g2]
  have "length geyser = length (rows f)" by simp
  then have "map fst (rows (set_column ''geyser_nr'' geyser f)) = map fst (rows f)"
    by (rule set_column_keys)
  moreover from dr have "map fst (rows dropped) = map fst (rows (set_column ''geyser_nr'' geyser f))"
    by (auto simp: drop_labels_def split: if_splits)
  ultimately show ?thesis using f' by simp
qed

lemma round_half_even_of_int: "round_half_even (of_int k) = k"
  by (simp add: round_half_even_def Let_def)

lemma format_0f_num_of_int: "format_0f_num (of_int k) = str_int k"
  by (simp add: format_0f_num_def str_int_def round_half_even_of_int
           flip: of_int_minus)

text \<open>An integer below \<open>2 ^ 53\<close> in size is a double, and is formatted exactly.\<close>

lemma exponent_of_int:
  assumes "k \<noteq> 0"
  shows "exponent (of_int k) = bitlen \<bar>k\<bar> - 1"
proof -
  have q: "quotient_of \<bar>rat_of_int k\<bar> = (\<bar>k\<bar>, 1)"
    by (simp add: quotient_of_int flip: of_int_abs)
  have b1: "bitlen 1 = 1" by (simp add: compute_bitlen [of 1])
  from assms have pos: "0 < \<bar>k\<bar>" by simp
  from bitlen_bounds [OF pos] have lo: "2 ^ nat (bitlen \<bar>k\<bar> - 1) \<le> \<bar>k\<bar>" by simp
  have ge: "0 \<le> bitlen \<bar>k\<bar> - 1"
    using pos bitlen_eq_zero_iff [of "\<bar>k\<bar>"] bitlen_nonneg [of "\<bar>k\<bar>"] by linarith
  have "pow2 (bitlen \<bar>k\<bar> - 1) = of_int (2 ^ nat (bitlen \<bar>k\<bar> - 1))"
    using ge by (simp add: pow2_def)
  also have "\<dots> \<le> of_int \<bar>k\<bar>" using lo by (simp only: of_int_le_iff)
  finally have "pow2 (bitlen \<bar>k\<bar> - 1) \<le> \<bar>rat_of_int k\<bar>" by simp
  then show ?thesis by (simp add: exponent_def q b1)
qed

lemma round_double_of_int:
  assumes "\<bar>k\<bar> < 2 ^ 53"
  shows "round_double (of_int k) = Some (of_int k)"
proof (cases "k = 0")
  case True
  then show ?thesis by (simp add: round_double_def)
next
  case False
  then have pos: "0 < \<bar>k\<bar>" by simp
  define e where "e = bitlen \<bar>k\<bar> - 1"
  have ex: "exponent (of_int k) = e" using False by (simp add: exponent_of_int e_def)
  have ge: "0 \<le> e"
    using pos bitlen_eq_zero_iff [of "\<bar>k\<bar>"] bitlen_nonneg [of "\<bar>k\<bar>"]
    unfolding e_def by linarith
  from bitlen_bounds [OF pos] assms have "(2::int) ^ nat e < 2 ^ 53"
    unfolding e_def by linarith
  then have "nat e < 53" by (rule power_less_imp_less_exp [rotated]) simp
  with ge have le: "e \<le> 52" by linarith
  define s where "s = nat (52 - e)"
  define u where "u = max (e - 52) (- 1074)"
  have u: "u = - int s" using ge le by (simp add: u_def s_def)
  have p: "pow2 u = 1 / 2 ^ s"
    unfolding u by (auto simp: pow2_def)
  have "rat_of_int k / pow2 u = of_int (k * 2 ^ s)" unfolding p by simp
  then have r: "round_half_even (rat_of_int k / pow2 u) = k * 2 ^ s"
    by (simp only: round_half_even_of_int)
  have undo: "of_int (k * 2 ^ s) * pow2 u = rat_of_int k" unfolding p by simp
  have nz: "rat_of_int k \<noteq> 0" using False by simp
  have "round_double (of_int k) =
      (let r = of_int (round_half_even (rat_of_int k / pow2 u)) * pow2 u
       in if r \<noteq> 0 \<and> 1024 \<le> exponent r then None else Some r)"
    using nz unfolding round_double_def ex u_def Let_def by simp
  also have "\<dots> = (if rat_of_int k \<noteq> 0 \<and> 1024 \<le> exponent (rat_of_int k)
                    then None else Some (rat_of_int k))"
    unfolding r undo Let_def ..
  also have "\<dots> = Some (rat_of_int k)" using le unfolding ex by simp
  finally show ?thesis .
qed

lemma format_0f_int_exact: "\<bar>k\<bar> < 2 ^ 53 \<Longrightarrow> format_0f_int k = Inr (str_int k)"
  by (simp add: format_0f_int_def round_double_of_int format_0f_num_of_int)

lemma collect_map_exact:
  "\<forall>x \<in> set xs. f x = Inr (g x) \<Longrightarrow> collect (map f xs) = Inr (map g xs)"
  by (induction xs) auto

text \<open>A present number is printed as decimal digits, after a minus sign when negative.\<close>

lemma digit_chars_nth: "k < 10 \<Longrightarrow> digit_chars ! k \<in> set digit_chars"
  by (rule nth_mem) (simp add: digit_chars_def)

lemma str_nat_digits: "str_nat n \<noteq> [] \<and> set (str_nat n) \<subseteq> set digit_chars"
proof (induction n rule: str_nat.induct)
  case (1 n)
  show ?case
  proof (cases "n < 10")
    case True
    then show ?thesis by (subst (1 2) str_nat.simps) (simp add: digit_chars_nth)
  next
    case False
    with 1 show ?thesis by (subst (1 2) str_nat.simps) (simp add: digit_chars_nth)
  qed
qed

lemma format_0f_present:
  "\<exists>ds. format_0f (Num q) = Inr (Str (if q < 0 then CHR ''-'' # ds else ds)) \<and>
        ds \<noteq> [] \<and> set ds \<subseteq> set digit_chars"
  using str_nat_digits by (auto simp: format_0f_num_def simp del: str_nat.simps)

lemma replace_nan_keeps:
  "map fst (rows (replace_nan cats f)) = map fst (rows f)" "cols (replace_nan cats f) = cols f"
  by (simp_all add: replace_nan_def o_def split_def)

lemma build_evidence_keys:
  assumes "build_evidence f = Inr ev"
  shows "collect (map (\<lambda>row. format_0f_int (fst row)) (rows f)) = Inr (map fst ev)"
    and "distinct (map fst ev)"
    and "\<forall>(k, rcd) \<in> set ev. set (map fst rcd) \<subseteq> set (cols f)"
    and "\<forall>(k, rcd) \<in> set ev. \<forall>(n, v) \<in> set rcd. v \<noteq> Str []"
proof -
  from assms obtain ids where ids: "collect (map (\<lambda>row. format_0f_int (fst row)) (rows f)) = Inr ids"
    by (auto simp: build_evidence_def split: sum.splits)
  define g where "g = replace_nan categorical_columns f"
  define indexed where "indexed = zip ids (map snd (rows g))"
  from collect_length [OF ids] have len: "length ids = length (map snd (rows g))"
    using replace_nan_keeps(1) [of categorical_columns f, THEN arg_cong [where f = length]]
    by (simp add: g_def)
  from assms ids have dist: "distinct (map fst indexed)"
    and ev: "ev = map (\<lambda>(k, vs). (k, drop_empty (zip (cols g) vs))) indexed"
    by (auto simp: build_evidence_def Let_def to_dict_index_def g_def indexed_def
          zip_map_map zip_same_conv_map o_def split_def split: if_splits)
  have keys: "map fst ev = ids"
    using len by (simp add: ev o_def split_def indexed_def)
  show "collect (map (\<lambda>row. format_0f_int (fst row)) (rows f)) = Inr (map fst ev)"
    using ids keys by simp
  show "distinct (map fst ev)"
    using dist len keys by (simp add: indexed_def)
  show "\<forall>(k, rcd) \<in> set ev. set (map fst rcd) \<subseteq> set (cols f)"
    by (auto simp: ev drop_empty_def g_def replace_nan_keeps dest: set_zip_leftD)
  show "\<forall>(k, rcd) \<in> set ev. \<forall>(n, v) \<in> set rcd. v \<noteq> Str []"
    by (auto simp: ev drop_empty_def)
qed

lemma path_join_output:
  "dir \<noteq> [] \<Longrightarrow> last dir \<noteq> CHR ''/'' \<Longrightarrow>
   path_join (path_join dir ''output'') (''bn_evidence_'' @ y @ ''.txt'') =
     dir @ ''/output/bn_evidence_'' @ y @ ''.txt''"
  by (simp add: path_join_def)



text \<open>
  C5, as amended. For every assembler bound to the imported name, every directory and
  year: a run of the body of \<^verbatim>\<open>evidence2000\<close> that raises no error writes exactly one
  document, at \<open>output/bn_evidence_<year>.txt\<close> under the directory, whose keys are the
  formatted respondent identifiers of the assembled table in their order (the decimal
  identifiers themselves when they are below \<open>2 ^ 53\<close> in size); it prints the file
  name with the output directory; and it returns \<open>None\<close> to its caller, not the
  mapping.
\<close>

theorem evidence2000_run:
  assumes "evidence2000 buildFeatureFrame dlrdb_dir year = Inr r"
  shows "\<exists>featureframe featureqs ev.
     buildFeatureFrame searchlist year = Inr (featureframe, featureqs) \<and>
     written r = [(path_join (path_join dlrdb_dir ''output'')
                     (''bn_evidence_'' @ str_year year @ ''.txt''), ev)] \<and>
     collect (map format_0f_int (map fst (rows featureframe))) = Inr (map fst ev) \<and>
     ((\<forall>k \<in> set (map fst (rows featureframe)). \<bar>k\<bar> < 2 ^ 53) \<longrightarrow>
        map fst ev = map str_int (map fst (rows featureframe))) \<and>
     printed r = [''bn_evidence_'' @ str_year year @ ''.txt'' @ '' successfully saved to '' @
                    path_join dlrdb_dir ''output''] \<and>
     returned r = None \<and>
     (dlrdb_dir \<noteq> [] \<and> last dlrdb_dir \<noteq> CHR ''/'' \<longrightarrow>
        map fst (written r) = [dlrdb_dir @ ''/output/bn_evidence_'' @ str_year year @ ''.txt''])"
proof -
  from assms obtain data named encoded ev where
    bff: "buildFeatureFrame searchlist year = Inr data" and
    nf: "node_frame (fst data) = Inr named" and
    en: "encode_columns named = Inr encoded" and
    be: "build_evidence encoded = Inr ev" and
    r: "r = \<lparr>printed = [(''bn_evidence_'' @ str_year year @ ''.txt'') @
                '' successfully saved to '' @ path_join dlrdb_dir ''output''],
             returned = None,
             written = [(path_join (path_join dlrdb_dir ''output'')
                (''bn_evidence_'' @ str_year year @ ''.txt''), ev)]\<rparr>"
    by (auto simp: evidence2000_def Let_def split: sum.splits)
  have same: "map fst (rows encoded) = map fst (rows (fst data))"
    using encode_columns_keeps [OF en] node_frame_keeps [OF nf] by simp
  have "collect (map format_0f_int (map fst (rows encoded))) = Inr (map fst ev)"
    using build_evidence_keys(1) [OF be] by (simp add: o_def)
  then have keys: "collect (map format_0f_int (map fst (rows (fst data)))) = Inr (map fst ev)"
    by (simp only: same)
  have small: "map fst ev = map str_int (map fst (rows (fst data)))"
    if "\<forall>k \<in> set (map fst (rows (fst data))). \<bar>k\<bar> < 2 ^ 53"
  proof -
    from that have "collect (map format_0f_int (map fst (rows (fst data)))) =
        Inr (map str_int (map fst (rows (fst data))))"
      by (intro collect_map_exact) (simp add: format_0f_int_exact)
    with keys show ?thesis by simp
  qed
  obtain featureframe featureqs where data: "data = (featureframe, featureqs)" by (cases data)
  show ?thesis
  proof (intro exI conjI)
    show "buildFeatureFrame searchlist year = Inr (featureframe, featureqs)"
      using bff data by simp
    show "written r = [(path_join (path_join dlrdb_dir ''output'')
                     (''bn_evidence_'' @ str_year year @ ''.txt''), ev)]"
      by (simp add: r)
    show "collect (map format_0f_int (map fst (rows featureframe))) = Inr (map fst ev)"
      using keys data by simp
    show "(\<forall>k \<in> set (map fst (rows featureframe)). \<bar>k\<bar> < 2 ^ 53) \<longrightarrow>
        map fst ev = map str_int (map fst (rows featureframe))"
      using small data by simp
    show "printed r = [''bn_evidence_'' @ str_year year @ ''.txt'' @ '' successfully saved to '' @
                    path_join dlrdb_dir ''output'']"
      by (simp add: r)
    show "returned r = None" by (simp add: r)
    show "dlrdb_dir \<noteq> [] \<and> last dlrdb_dir \<noteq> CHR ''/'' \<longrightarrow>
        map fst (written r) = [dlrdb_dir @ ''/output/bn_evidence_'' @ str_year year @ ''.txt'']"
      using path_join_output [of dlrdb_dir "str_year year"] by (simp add: r)
  qed
qed

theorem evidence2000_run_witness:
  "\<exists>featureframe featureqs (ev :: evidence).
     featureFrame sample_tables searchlist (YInt 2014) = Inr (featureframe, featureqs) \<and>
     collect (map format_0f_int (map fst (rows featureframe))) = Inr (map fst ev) \<and>
     map fst ev = [''11'', ''12''] \<and>
     path_join (path_join ''/srv/dlr'' ''output'') (''bn_evidence_'' @ str_year (YInt 2014) @ ''.txt'')
       = ''/srv/dlr/output/bn_evidence_2014.txt''"
proof -
  have run: "evidence2000 (featureFrame sample_tables) ''/srv/dlr'' (YInt 2014) =
     Inr \<lparr>printed = [''bn_evidence_2014.txt successfully saved to /srv/dlr/output''],
          returned = None,
          written = [(''/srv/dlr/output/bn_evidence_2014.txt'',
            [(''11'', [(''monthly_income'', Str ''R3200-R7799''), (''water_access'', Str ''1''),
                       (''roof_material'', Str ''3''), (''wall_material'', Str ''4''),
                       (''cb_size'', Str ''20''), (''floor_area'', Str ''80-150''),
                       (''geyser_nr'', Str ''1'')]),
             (''12'', [(''monthly_income'', Str ''R0-R1799''), (''water_access'', Str ''2''),
                       (''roof_material'', Str ''2''), (''wall_material'', Str ''2''),
                       (''cb_size'', Str ''nan''), (''floor_area'', NaN),
                       (''geyser_nr'', Str ''nan'')])])]\<rparr>"
    by code_simp
  from evidence2000_run [OF run] obtain featureframe featureqs ev where
    ff: "featureFrame sample_tables searchlist (YInt 2014) = Inr (featureframe, featureqs)" and
    w: "[(''/srv/dlr/output/bn_evidence_2014.txt'',
            [(''11'', [(''monthly_income'', Str ''R3200-R7799''), (''water_access'', Str ''1''),
                       (''roof_material'', Str ''3''), (''wall_material'', Str ''4''),
                       (''cb_size'', Str ''20''), (''floor_area'', Str ''80-150''),
                       (''geyser_nr'', Str ''1'')]),
             (''12'', [(''monthly_income'', Str ''R0-R1799''), (''water_access'', Str ''2''),
                       (''roof_material'', Str ''2''), (''wall_material'', Str ''2''),
                       (''cb_size'', Str ''nan''), (''floor_area'', NaN),
                       (''geyser_nr'', Str ''nan'')])])] =
        [(path_join (path_join ''/srv/dlr'' ''output'')
           (''bn_evidence_'' @ str_year (YInt 2014) @ ''.txt''), ev)]" and
    keys: "collect (map format_0f_int (map fst (rows featureframe))) = Inr (map fst ev)"
    by auto
  from w have named: "map fst ev = [''11'', ''12'']" and
    path: "path_join (path_join ''/srv/dlr'' ''output'')
       (''bn_evidence_'' @ str_year (YInt 2014) @ ''.txt'') = ''/srv/dlr/output/bn_evidence_2014.txt''"
    by auto
  show ?thesis
    by (rule exI [of _ featureframe], rule exI [of _ featureqs], rule exI [of _ ev])
       (intro conjI ff keys named path)
qed

text \<open>
  The function ends with a bare \<^verbatim>\<open>return\<close> (the mapping is commented out): with the
  assembler of \<^verbatim>\<open>socios.py\<close> bound to the imported name, the run on the sample store
  writes the document of two records and returns \<open>None\<close>.
\<close>

theorem evidence2000_returns_None_counterexample:
  "evidence2000 (featureFrame sample_tables) ''/home/dlr'' (YInt 2014) =
     Inr \<lparr>printed = [''bn_evidence_2014.txt successfully saved to /home/dlr/output''],
          returned = None,
          written = [(''/home/dlr/output/bn_evidence_2014.txt'',
            [(''11'', [(''monthly_income'', Str ''R3200-R7799''), (''water_access'', Str ''1''),
                       (''roof_material'', Str ''3''), (''wall_material'', Str ''4''),
                       (''cb_size'', Str ''20''), (''floor_area'', Str ''80-150''),
                       (''geyser_nr'', Str ''1'')]),
             (''12'', [(''monthly_income'', Str ''R0-R1799''), (''water_access'', Str ''2''),
                       (''roof_material'', Str ''2''), (''wall_material'', Str ''2''),
                       (''cb_size'', Str ''nan''), (''floor_area'', NaN),
                       (''geyser_nr'', Str ''nan'')])])]\<rparr>"
  by code_simp

text \<open>
  C1. The specification asks that the evidence encoder obtains its feature table by
  calling the Feature Assembler. The module imports the assembler under the name
  \<^verbatim>\<open>buildFeatureFrame\<close>; \<^verbatim>\<open>socios.py\<close> binds \<^verbatim>\<open>featureFrame\<close> and no such
  name, so for every store, directory and year the import raises an ImportError and the
  assembler is never called.
\<close>

theorem bn_evidence_import_error:
  "''buildFeatureFrame'' \<notin> set socios_names \<and> ''featureFrame'' \<in> set socios_names \<and>
   import_from_socios T ''buildFeatureFrame'' = Inl ImportError \<and>
   bn_evidence_evidence2000 T dlrdb_dir year = Inl ImportError"
  by (simp add: bn_evidence_evidence2000_def import_from_socios_def socios_names_def)

text \<open>
  C2. The specification asks that the record of a respondent whose \<open>cb_size\<close> is
  missing has no \<open>cb_size\<close> key, and that no record holds a missing value. On the
  sample store respondent 12 has no value in the circuit-breaker column (label 150) and
  a floor area outside the bins. With the assembler of \<^verbatim>\<open>socios.py\<close> bound to the
  imported name, the record written for 12 has the key \<open>cb_size\<close> with the value
  \<open>nan\<close> (the formatting step has turned the missing value into a non-empty string)
  and the key \<open>floor_area\<close> with a missing value (the replacement of missing cells
  leaves the binned columns alone).
\<close>

theorem evidence2000_missing_cb_size:
  "get_column KeyError sample_answers_num ''150'' = Inr [Num 20, NaN, Num 60] \<and>
   map fst (rows sample_answers_num) = [11, 12, 21] \<and>
   written_record (evidence2000 (featureFrame sample_tables) ''/home/dlr'' (YInt 2014)) ''12'' =
     Some [(''monthly_income'', Str ''R0-R1799''), (''water_access'', Str ''2''),
           (''roof_material'', Str ''2''), (''wall_material'', Str ''2''),
           (''cb_size'', Str ''nan''), (''floor_area'', NaN), (''geyser_nr'', Str ''nan'')]"
  by code_simp


text \<open>
  C3. The specification asks that a missing value stays missing in the formatting step.
  The format function is applied to the missing values too and prints not-a-number as
  \<open>nan\<close>: formatting \<open>cb_size\<close> on the sample table leaves the string \<open>nan\<close> for
  respondent 12.
\<close>

theorem format_0f_missing:
  "format_0f NaN = Inr (Str ''nan'') \<and>
   apply_column ''cb_size'' format_0f sample_named =
     Inr \<lparr>cols = bn_n,
          rows = [(11, [Num 5000, Num 1, Num 3, Num 4, Str ''20'', Num 90, Num 1]),
                  (12, [Num 1799, Num 2, Num 2, Num 2, Str ''nan'', Num 600, NaN])]\<rparr>"
  by code_simp

end
